theory Spec2Isabelle
  imports Main "HOL-Library.Word"
begin

section \<open>Common modelling conventions\<close>

text \<open>
  The repository is a catalogue of design-pattern write-ups whose snippets are Java
  (and, for the decorator, TypeScript). Each snippet is embedded on its own.

  \<^item> \<open>System.out.println\<close> and \<open>console.log\<close> append one line to a console, which is
    passed in and returned.
  \<^item> A Java reference is an address; \<open>null\<close> is \<open>None\<close>. Objects that are compared by
    identity or mutated through several references live in an explicit heap.
  \<^item> A Java \<open>int\<close> field is a 32-bit word, a Java \<open>char\<close> a 16-bit word.
\<close>

type_synonym console = "string list"

definition println :: "string \<Rightarrow> console \<Rightarrow> console" where
  "println s out = out @ [s]"

type_synonym ref = nat


section \<open>State pattern: the media player\<close>

text \<open>
  The three concrete states have no fields, so a state object is determined by its
  class. \<open>MediaPlayer\<close> holds the current one; the constructor starts in
  \<open>StoppedState\<close>.
\<close>

datatype State = PlayingState | PausedState | StoppedState

record MediaPlayer =
  currentState :: State

definition MediaPlayer_new :: MediaPlayer where
  "MediaPlayer_new = \<lparr>currentState = StoppedState\<rparr>"

definition setState :: "State \<Rightarrow> MediaPlayer \<Rightarrow> MediaPlayer" where
  "setState s player = player\<lparr>currentState := s\<rparr>"

text \<open>The methods of the \<open>State\<close> interface, dispatched on the receiver's class.\<close>

fun State_play :: "State \<Rightarrow> MediaPlayer \<Rightarrow> console \<Rightarrow> MediaPlayer \<times> console" where
  "State_play PlayingState player out = (player, println ''Already playing!'' out)"
| "State_play PausedState player out =
     (setState PlayingState player, println ''Resuming playback...'' out)"
| "State_play StoppedState player out =
     (setState PlayingState player, println ''Starting playback...'' out)"

fun State_pause :: "State \<Rightarrow> MediaPlayer \<Rightarrow> console \<Rightarrow> MediaPlayer \<times> console" where
  "State_pause PlayingState player out =
     (setState PausedState player, println ''Pausing playback...'' out)"
| "State_pause PausedState player out = (player, println ''Already paused!'' out)"
| "State_pause StoppedState player out =
     (player, println ''Cannot pause. The media player is stopped.'' out)"

fun State_stop :: "State \<Rightarrow> MediaPlayer \<Rightarrow> console \<Rightarrow> MediaPlayer \<times> console" where
  "State_stop PlayingState player out =
     (setState StoppedState player, println ''Stopping playback...'' out)"
| "State_stop PausedState player out =
     (setState StoppedState player, println ''Stopping playback...'' out)"
| "State_stop StoppedState player out = (player, println ''Already stopped!'' out)"

text \<open>The context delegates to whatever state it currently holds.\<close>

definition play :: "MediaPlayer \<Rightarrow> console \<Rightarrow> MediaPlayer \<times> console" where
  "play player out = State_play (currentState player) player out"

definition pause :: "MediaPlayer \<Rightarrow> console \<Rightarrow> MediaPlayer \<times> console" where
  "pause player out = State_pause (currentState player) player out"

definition stop :: "MediaPlayer \<Rightarrow> console \<Rightarrow> MediaPlayer \<times> console" where
  "stop player out = State_stop (currentState player) player out"


section \<open>Decorator pattern: windows (TypeScript)\<close>

text \<open>
  \<open>SimpleWindow\<close>, \<open>WindowDecorator\<close> and \<open>BorderedWindowDecorator\<close> are the classes
  implementing \<open>Window\<close>. A decorator stores the window it wraps in a field that is
  set by the constructor only. \<open>BorderedWindowDecorator.draw\<close> calls \<open>super.draw()\<close>,
  which is \<open>WindowDecorator.draw\<close>, and then its private \<open>drawBorder\<close>.
\<close>

datatype Window =
    SimpleWindow
  | WindowDecorator Window
  | BorderedWindowDecorator Window

definition drawBorder :: "console \<Rightarrow> console" where
  "drawBorder out = println ''Drawing a border around the window'' out"

fun draw :: "Window \<Rightarrow> console \<Rightarrow> console" where
  "draw SimpleWindow out = println ''Drawing a simple window'' out"
| "draw (WindowDecorator w) out = draw w out"
| "draw (BorderedWindowDecorator w) out = drawBorder (draw w out)"


section \<open>Exceptions\<close>

text \<open>
  The only \<open>throw\<close> statement of the snippets raises \<open>IllegalStateException\<close>. The
  other three are raised by the Java run time: by a failed downcast, by a method call
  through a reference that addresses no object, and by an array read out of bounds.
\<close>

datatype exn =
    IllegalStateException
  | ClassCastException
  | NullPointerException
  | ArrayIndexOutOfBoundsException


section \<open>Prototype pattern: circles and rectangles\<close>

text \<open>
  \<open>Circle\<close> and \<open>Rectangle\<close> objects are mutable and the claims compare references,
  so the objects live in a heap: the list of all objects allocated so far, an
  object's address being its index. \<open>new\<close> appends, so it returns an address that no
  earlier object has.
\<close>

record Circle =
  radius :: "32 word"
  color :: string

record Rectangle =
  width :: "32 word"
  height :: "32 word"
  color :: string

datatype Prototype = CircleObj Circle | RectangleObj Rectangle

type_synonym heap = "Prototype list"

definition lookup :: "heap \<Rightarrow> ref \<Rightarrow> Prototype option" where
  "lookup h r = (if r < length h then Some (h ! r) else None)"

definition new :: "Prototype \<Rightarrow> heap \<Rightarrow> ref \<times> heap" where
  "new obj h = (length h, h @ [obj])"

text \<open>
  A reference of static type \<open>Circle\<close> (or \<open>Rectangle\<close>) is obtained from a
  \<open>Prototype\<close> by a downcast, which fails on an object of the other class.
\<close>

definition asCircle :: "heap \<Rightarrow> ref \<Rightarrow> exn + Circle" where
  "asCircle h r =
     (case lookup h r of
        None \<Rightarrow> Inl NullPointerException
      | Some (CircleObj c) \<Rightarrow> Inr c
      | Some (RectangleObj _) \<Rightarrow> Inl ClassCastException)"

definition asRectangle :: "heap \<Rightarrow> ref \<Rightarrow> exn + Rectangle" where
  "asRectangle h r =
     (case lookup h r of
        None \<Rightarrow> Inl NullPointerException
      | Some (CircleObj _) \<Rightarrow> Inl ClassCastException
      | Some (RectangleObj q) \<Rightarrow> Inr q)"

definition Circle_setRadius :: "ref \<Rightarrow> 32 word \<Rightarrow> heap \<Rightarrow> exn + heap" where
  "Circle_setRadius this v h =
     (case asCircle h this of
        Inl e \<Rightarrow> Inl e
      | Inr c \<Rightarrow> Inr (h[this := CircleObj (c\<lparr>radius := v\<rparr>)]))"

definition Circle_setColor :: "ref \<Rightarrow> string \<Rightarrow> heap \<Rightarrow> exn + heap" where
  "Circle_setColor this v h =
     (case asCircle h this of
        Inl e \<Rightarrow> Inl e
      | Inr c \<Rightarrow> Inr (h[this := CircleObj (c\<lparr>Circle.color := v\<rparr>)]))"

definition Rectangle_setWidth :: "ref \<Rightarrow> 32 word \<Rightarrow> heap \<Rightarrow> exn + heap" where
  "Rectangle_setWidth this v h =
     (case asRectangle h this of
        Inl e \<Rightarrow> Inl e
      | Inr q \<Rightarrow> Inr (h[this := RectangleObj (q\<lparr>width := v\<rparr>)]))"

definition Rectangle_setHeight :: "ref \<Rightarrow> 32 word \<Rightarrow> heap \<Rightarrow> exn + heap" where
  "Rectangle_setHeight this v h =
     (case asRectangle h this of
        Inl e \<Rightarrow> Inl e
      | Inr q \<Rightarrow> Inr (h[this := RectangleObj (q\<lparr>height := v\<rparr>)]))"

definition Rectangle_setColor :: "ref \<Rightarrow> string \<Rightarrow> heap \<Rightarrow> exn + heap" where
  "Rectangle_setColor this v h =
     (case asRectangle h this of
        Inl e \<Rightarrow> Inl e
      | Inr q \<Rightarrow> Inr (h[this := RectangleObj (q\<lparr>Rectangle.color := v\<rparr>)]))"

text \<open>
  \<open>Prototype.clone()\<close>, dispatched on the class of the receiver:
  \<open>new Circle(this.radius, this.color)\<close>, respectively
  \<open>new Rectangle(this.width, this.height, this.color)\<close>.
\<close>

definition clone :: "ref \<Rightarrow> heap \<Rightarrow> exn + ref \<times> heap" where
  "clone this h =
     (case lookup h this of
        None \<Rightarrow> Inl NullPointerException
      | Some (CircleObj c) \<Rightarrow>
          Inr (new (CircleObj \<lparr>radius = radius c, color = Circle.color c\<rparr>) h)
      | Some (RectangleObj q) \<Rightarrow>
          Inr (new (RectangleObj
                 \<lparr>width = width q, height = height q, color = Rectangle.color q\<rparr>) h))"


text \<open>
  The heap of \<open>PrototypePatternDemo.main\<close> after its two \<open>new\<close> expressions:
  \<open>originalCircle\<close> at address 0 and \<open>originalRectangle\<close> at address 1.
\<close>

definition demo_heap :: heap where
  "demo_heap = [CircleObj \<lparr>radius = 10, color = ''Red''\<rparr>,
                RectangleObj \<lparr>width = 20, height = 30, color = ''Blue''\<rparr>]"


section \<open>Iterator pattern: the playlist iterator\<close>








section \<open>Singleton pattern: the logger\<close>

text \<open>
  The static field \<open>Logger.instance\<close>, the \<open>Logger\<close> objects constructed so far (the
  \<open>k\<close>-th one has address \<open>k\<close>) and the console. The snippets are single-threaded,
  so the \<open>synchronized\<close> block is its body; both tests of \<open>instance == null\<close> are
  kept.
\<close>

record Logger_class =
  Logger_instance :: "ref option"
  allocated :: nat
  stdout :: console

definition Logger_uninitialized :: Logger_class where
  "Logger_uninitialized = \<lparr>Logger_instance = None, allocated = 0, stdout = []\<rparr>"

definition Logger_new :: "Logger_class \<Rightarrow> ref \<times> Logger_class" where
  "Logger_new s =
     (allocated s,
      s\<lparr>allocated := Suc (allocated s),
        stdout := println ''Logger initialized.'' (stdout s)\<rparr>)"

definition getInstance :: "Logger_class \<Rightarrow> ref option \<times> Logger_class" where
  "getInstance s =
     (let s1 =
        (if Logger_instance s = None then
           (if Logger_instance s = None then
              (case Logger_new s of (r, s') \<Rightarrow> s'\<lparr>Logger_instance := Some r\<rparr>)
            else s)
         else s)
      in (Logger_instance s1, s1))"

text \<open>\<open>n\<close> successive calls of \<open>getInstance()\<close>, with the references they return.\<close>

fun getInstances :: "nat \<Rightarrow> Logger_class \<Rightarrow> ref option list \<times> Logger_class" where
  "getInstances 0 s = ([], s)"
| "getInstances (Suc n) s =
     (case getInstance s of (r, s1) \<Rightarrow>
        (case getInstances n s1 of (rs, s2) \<Rightarrow> (r # rs, s2)))"


section \<open>Flyweight pattern: characters\<close>

text \<open>
  The snippet's class \<open>Character\<close> declares three fields, a constructor and \<open>draw\<close>;
  it declares neither \<open>equals\<close> nor \<open>hashCode\<close>, so it inherits \<open>Object\<close>'s, which
  compare references. The keys of the \<open>HashMap<Character, Character>\<close> are therefore
  addresses, and \<open>containsKey\<close>, \<open>put\<close> and \<open>get\<close> look an address up.
\<close>

record Character =
  value_field :: "16 word"
  size_field :: "32 word"
  font :: string

record FlyweightFactory =
  characters :: "Character list"
  flyweights :: "ref \<rightharpoonup> ref"

definition FlyweightFactory_new :: FlyweightFactory where
  "FlyweightFactory_new = \<lparr>characters = [], flyweights = Map.empty\<rparr>"

definition Character_new ::
    "16 word \<Rightarrow> 32 word \<Rightarrow> string \<Rightarrow> FlyweightFactory \<Rightarrow> ref \<times> FlyweightFactory" where
  "Character_new v sz f w =
     (length (characters w),
      w\<lparr>characters := characters w @ [\<lparr>value_field = v, size_field = sz, font = f\<rparr>]\<rparr>)"

definition containsKey :: "(ref \<rightharpoonup> ref) \<Rightarrow> ref \<Rightarrow> bool" where
  "containsKey m k = (m k \<noteq> None)"

definition getCharacter ::
    "16 word \<Rightarrow> 32 word \<Rightarrow> string \<Rightarrow> FlyweightFactory \<Rightarrow> ref option \<times> FlyweightFactory" where
  "getCharacter v sz f w =
     (case Character_new v sz f w of (character, w1) \<Rightarrow>
        (let w2 = (if \<not> containsKey (flyweights w1) character
                   then w1\<lparr>flyweights := (flyweights w1)(character \<mapsto> character)\<rparr>
                   else w1)
         in (flyweights w2 character, w2)))"


section \<open>Builder pattern: houses\<close>

text \<open>
  A \<open>House\<close> has four \<open>String\<close> fields, \<open>null\<close> until set. The interface
  \<open>HouseBuilder\<close> is the record of its methods over the state \<open>'b\<close> of the
  implementing object; no method of it or of the two builders throws. The state of
  either concrete builder is its one field, the house under construction.
\<close>

record House =
  foundation :: "string option"
  "structure" :: "string option"
  roof :: "string option"
  interior :: "string option"

definition House_new :: House where
  "House_new = \<lparr>foundation = None, structure = None, roof = None, interior = None\<rparr>"

definition setFoundation :: "string \<Rightarrow> House \<Rightarrow> House" where
  "setFoundation v house = house\<lparr>foundation := Some v\<rparr>"

definition setStructure :: "string \<Rightarrow> House \<Rightarrow> House" where
  "setStructure v house = house\<lparr>structure := Some v\<rparr>"

definition setRoof :: "string \<Rightarrow> House \<Rightarrow> House" where
  "setRoof v house = house\<lparr>roof := Some v\<rparr>"

definition setInterior :: "string \<Rightarrow> House \<Rightarrow> House" where
  "setInterior v house = house\<lparr>interior := Some v\<rparr>"

record 'b HouseBuilder =
  buildFoundation :: "'b \<Rightarrow> 'b"
  buildStructure :: "'b \<Rightarrow> 'b"
  buildRoof :: "'b \<Rightarrow> 'b"
  buildInterior :: "'b \<Rightarrow> 'b"
  getHouse :: "'b \<Rightarrow> House"

definition WoodenHouseBuilder :: "House HouseBuilder" where
  "WoodenHouseBuilder =
     \<lparr>buildFoundation = setFoundation ''Wooden Piles'',
      buildStructure = setStructure ''Wood and Bamboo'',
      buildRoof = setRoof ''Wooden Shingles'',
      buildInterior = setInterior ''Wooden Panels'',
      getHouse = (\<lambda>house. house)\<rparr>"

definition BrickHouseBuilder :: "House HouseBuilder" where
  "BrickHouseBuilder =
     \<lparr>buildFoundation = setFoundation ''Concrete and Steel'',
      buildStructure = setStructure ''Brick and Mortar'',
      buildRoof = setRoof ''Concrete Slabs'',
      buildInterior = setInterior ''Plastered Walls'',
      getHouse = (\<lambda>house. house)\<rparr>"

text \<open>Both constructors set \<open>this.house = new House()\<close>.\<close>

definition WoodenHouseBuilder_new :: House where
  "WoodenHouseBuilder_new = House_new"

definition BrickHouseBuilder_new :: House where
  "BrickHouseBuilder_new = House_new"

text \<open>\<open>ConstructionDirector.constructHouse\<close>, on the director's builder.\<close>

definition constructHouse :: "'b HouseBuilder \<Rightarrow> 'b \<Rightarrow> 'b" where
  "constructHouse builder b =
     (let b1 = buildFoundation builder b;
          b2 = buildStructure builder b1;
          b3 = buildRoof builder b2;
          b4 = buildInterior builder b3
      in b4)"

text \<open>
  To observe the order of the director's calls, a builder that forwards every call
  to a given builder and notes which method was called.
\<close>

datatype call = BuildFoundation | BuildStructure | BuildRoof | BuildInterior

definition recording :: "'b HouseBuilder \<Rightarrow> ('b \<times> call list) HouseBuilder" where
  "recording builder =
     \<lparr>buildFoundation = (\<lambda>(b, calls). (buildFoundation builder b, calls @ [BuildFoundation])),
      buildStructure = (\<lambda>(b, calls). (buildStructure builder b, calls @ [BuildStructure])),
      buildRoof = (\<lambda>(b, calls). (buildRoof builder b, calls @ [BuildRoof])),
      buildInterior = (\<lambda>(b, calls). (buildInterior builder b, calls @ [BuildInterior])),
      getHouse = (\<lambda>(b, calls). getHouse builder b)\<rparr>"


section \<open>Observer pattern: the stock market\<close>

text \<open>
  \<open>Subject\<close> keeps its observers in an \<open>ArrayList\<close>: \<open>add\<close> appends, \<open>remove(Object)\<close>
  deletes the first element equal to its argument. The observers are \<open>Trader\<close>
  objects, which inherit \<open>Object.equals\<close>, so the list is a list of addresses. A
  call \<open>observer.update(stockName, price)\<close> is recorded as an event; the \<open>double\<close> it
  passes on is its 64 bits. \<open>StockMarket\<close> extends \<open>Subject\<close>.
\<close>

datatype event = Update ref string "64 word"

record Subject =
  observers :: "ref list"

record StockMarket = Subject +
  stockPrices :: "string \<rightharpoonup> 64 word"

definition StockMarket_new :: StockMarket where
  "StockMarket_new = \<lparr>observers = [], stockPrices = Map.empty\<rparr>"

definition attach :: "ref \<Rightarrow> 'a Subject_scheme \<Rightarrow> 'a Subject_scheme" where
  "attach observer s = s\<lparr>observers := observers s @ [observer]\<rparr>"

definition detach :: "ref \<Rightarrow> 'a Subject_scheme \<Rightarrow> 'a Subject_scheme" where
  "detach observer s = s\<lparr>observers := remove1 observer (observers s)\<rparr>"

fun notifyLoop :: "ref list \<Rightarrow> string \<Rightarrow> 64 word \<Rightarrow> event list \<Rightarrow> event list" where
  "notifyLoop [] stockName price trace = trace"
| "notifyLoop (observer # rest) stockName price trace =
     notifyLoop rest stockName price (trace @ [Update observer stockName price])"

definition notifyObservers ::
    "string \<Rightarrow> 64 word \<Rightarrow> 'a Subject_scheme \<Rightarrow> event list \<Rightarrow> event list" where
  "notifyObservers stockName price s trace = notifyLoop (observers s) stockName price trace"

definition setPrice ::
    "string \<Rightarrow> 64 word \<Rightarrow> StockMarket \<Rightarrow> event list \<Rightarrow> StockMarket \<times> event list" where
  "setPrice stockName price m trace =
     (let m1 = m\<lparr>stockPrices := (stockPrices m)(stockName \<mapsto> price)\<rparr>
      in (m1, notifyObservers stockName price m1 trace))"

text \<open>The events of a trace that are calls of \<open>update\<close> on a given observer.\<close>

fun updates_on :: "ref \<Rightarrow> event list \<Rightarrow> event list" where
  "updates_on observer [] = []"
| "updates_on observer (Update r stockName price # es) =
     (if r = observer then Update r stockName price # updates_on observer es
      else updates_on observer es)"


section \<open>Chain of responsibility: support requests\<close>

text \<open>
  Handlers are linked by their mutable field \<open>next\<close>, and \<open>Client.main\<close> sets the
  agent's \<open>next\<close> after the agent has become the automated handler's \<open>next\<close>, so
  the handlers live in a heap (address = allocation index). \<open>handleRequest\<close> follows
  \<open>next\<close> references and need not return on a cyclic chain: it is a partial function,
  \<open>None\<close> meaning that the call does not return. A trace records every invocation
  of \<open>handleRequest\<close> and every line printed.
\<close>

datatype HandlerClass = AutomatedHandler | AgentHandler | SupervisorHandler

record Handler =
  handler_class :: HandlerClass
  next_handler :: "ref option"

datatype chain_event = Call ref string | Print string

fun handled_request :: "HandlerClass \<Rightarrow> string" where
  "handled_request AutomatedHandler = ''basic''"
| "handled_request AgentHandler = ''intermediate''"
| "handled_request SupervisorHandler = ''complex''"

fun resolving_line :: "HandlerClass \<Rightarrow> string" where
  "resolving_line AutomatedHandler = ''AutomatedHandler: Resolving basic request.''"
| "resolving_line AgentHandler = ''AgentHandler: Resolving intermediate request.''"
| "resolving_line SupervisorHandler = ''SupervisorHandler: Resolving complex request.''"

fun unable_line :: "HandlerClass \<Rightarrow> string" where
  "unable_line AutomatedHandler = ''AutomatedHandler: Unable to process the request.''"
| "unable_line AgentHandler = ''AgentHandler: Unable to process the request.''"
| "unable_line SupervisorHandler = ''SupervisorHandler: Unable to process the request.''"

partial_function (option) handleRequest ::
    "Handler list \<Rightarrow> ref \<Rightarrow> string \<Rightarrow> chain_event list \<Rightarrow> (exn + chain_event list) option" where
  "handleRequest hs this request trace =
     (if length hs \<le> this then Some (Inl NullPointerException)
      else
        (let c = handler_class (hs ! this); trace1 = trace @ [Call this request] in
         if request = handled_request c then Some (Inr (trace1 @ [Print (resolving_line c)]))
         else
           (case next_handler (hs ! this) of
              Some n \<Rightarrow> handleRequest hs n request trace1
            | None \<Rightarrow> Some (Inr (trace1 @ [Print (unable_line c)])))))"

definition Handler_new :: "HandlerClass \<Rightarrow> Handler list \<Rightarrow> ref \<times> Handler list" where
  "Handler_new c hs = (length hs, hs @ [\<lparr>handler_class = c, next_handler = None\<rparr>])"

definition setNext :: "ref \<Rightarrow> ref option \<Rightarrow> Handler list \<Rightarrow> Handler list" where
  "setNext this n hs =
     (if this < length hs then hs[this := (hs ! this)\<lparr>next_handler := n\<rparr>] else hs)"

text \<open>The chain that \<open>Client.main\<close> sets up, with the handler it sends requests to.\<close>

definition client_chain :: "ref \<times> Handler list" where
  "client_chain =
     (case Handler_new AutomatedHandler [] of (automatedHandler, h1) \<Rightarrow>
      case Handler_new AgentHandler h1 of (agentHandler, h2) \<Rightarrow>
      case Handler_new SupervisorHandler h2 of (supervisorHandler, h3) \<Rightarrow>
        (let h4 = setNext automatedHandler (Some agentHandler) h3;
             h5 = setNext agentHandler (Some supervisorHandler) h4
         in (automatedHandler, h5)))"


section \<open>Results: state pattern\<close>

text \<open>
  C2, as stated: every operation of the media player leaves its current state
  unchanged. This fails already on a new player: \<open>play\<close> moves it from
  \<open>StoppedState\<close> to \<open>PlayingState\<close>.
\<close>

theorem MediaPlayer_play_changes_state:
  "currentState (fst (play MediaPlayer_new [])) \<noteq> currentState MediaPlayer_new"
  by (simp add: play_def MediaPlayer_new_def setState_def)

text \<open>
  C2, amended: the media player is a three-state machine, which the constructor
  starts in \<open>StoppedState\<close>. \<open>play\<close> always ends in
  \<open>PlayingState\<close>, \<open>stop\<close> always ends in \<open>StoppedState\<close>, \<open>pause\<close> moves
  \<open>PlayingState\<close> to \<open>PausedState\<close> and leaves the other two states as they are; each
  operation prints exactly one line, and which line depends on the stored state.
\<close>

theorem MediaPlayer_state_machine:
  "currentState MediaPlayer_new = StoppedState
   \<and> currentState (fst (play p out)) = PlayingState
   \<and> currentState (fst (stop p out)) = StoppedState
   \<and> currentState (fst (pause p out)) =
       (case currentState p of PlayingState \<Rightarrow> PausedState
                             | PausedState \<Rightarrow> PausedState
                             | StoppedState \<Rightarrow> StoppedState)
   \<and> snd (play p out) = out @
       [case currentState p of PlayingState \<Rightarrow> ''Already playing!''
                             | PausedState \<Rightarrow> ''Resuming playback...''
                             | StoppedState \<Rightarrow> ''Starting playback...'']
   \<and> snd (pause p out) = out @
       [case currentState p of PlayingState \<Rightarrow> ''Pausing playback...''
                             | PausedState \<Rightarrow> ''Already paused!''
                             | StoppedState \<Rightarrow> ''Cannot pause. The media player is stopped.'']
   \<and> snd (stop p out) = out @
       [case currentState p of PlayingState \<Rightarrow> ''Stopping playback...''
                             | PausedState \<Rightarrow> ''Stopping playback...''
                             | StoppedState \<Rightarrow> ''Already stopped!'']"
  by (cases "currentState p")
     (simp_all add: MediaPlayer_new_def play_def pause_def stop_def setState_def println_def)


section \<open>Results: decorator\<close>

lemma draw_appends: "draw w out = out @ draw w []"
proof (induction w arbitrary: out)
  case SimpleWindow
  show ?case by (simp add: println_def)
next
  case (WindowDecorator w)
  show ?case using WindowDecorator.IH [of out] by (simp only: draw.simps)
next
  case (BorderedWindowDecorator w)
  have "draw (BorderedWindowDecorator w) out = draw w out @ [''Drawing a border around the window'']"
    by (simp add: drawBorder_def println_def)
  also have "\<dots> = out @ draw w [] @ [''Drawing a border around the window'']"
    using BorderedWindowDecorator.IH [of out] by simp
  also have "\<dots> = out @ draw (BorderedWindowDecorator w) []"
    by (simp add: drawBorder_def println_def)
  finally show ?case .
qed

text \<open>
  C9: for every window \<open>w\<close>, drawing \<open>BorderedWindowDecorator(w)\<close> writes what
  \<open>w.draw()\<close> writes, followed by the one line "Drawing a border around the window";
  drawing the plain \<open>WindowDecorator(w)\<close> writes exactly what \<open>w.draw()\<close> writes. What
  the wrapped window writes is the same lines whatever is already on the console.
\<close>

theorem decorator_preserves_and_appends:
  "draw (BorderedWindowDecorator w) out =
     out @ draw w [] @ [''Drawing a border around the window'']
   \<and> draw (WindowDecorator w) out = out @ draw w []
   \<and> draw w out = out @ draw w []"
proof -
  have a: "draw w out = out @ draw w []" by (rule draw_appends)
  have "draw (BorderedWindowDecorator w) out =
          draw w out @ [''Drawing a border around the window'']"
    by (simp add: drawBorder_def println_def)
  with a show ?thesis by simp
qed


section \<open>Results: prototype\<close>

lemma new_result:
  assumes "new x h = (r, h')"
  shows "lookup h' r = Some x"
    and "lookup h a = Some obj \<Longrightarrow> r \<noteq> a \<and> lookup h' a = Some obj"
  using assms by (auto simp: lookup_def new_def nth_append split: if_splits)

lemma lookup_update:
  "lookup h r = Some obj \<Longrightarrow> lookup (h[r := x]) r = Some x"
  "a \<noteq> r \<Longrightarrow> lookup (h[r := x]) a = lookup h a"
  by (auto simp: lookup_def split: if_splits)

text \<open>
  C5: a clone is a distinct object with equal field values. For every object
  that a reference addresses, \<open>clone()\<close> returns a reference different from the
  original's, the new object has the original's class, and its fields
  (\<open>radius\<close>/\<open>color\<close>, respectively \<open>width\<close>/\<open>height\<close>/\<open>color\<close>) equal the original's
  at the time of cloning; the original is as it was.
\<close>

theorem clone_distinct_equal_fields:
  assumes "lookup h this = Some obj"
  shows "\<exists>r h'. clone this h = Inr (r, h') \<and> r \<noteq> this
           \<and> lookup h' this = Some obj
           \<and> (case obj of
                 CircleObj c \<Rightarrow> (\<exists>c'. lookup h' r = Some (CircleObj c')
                     \<and> radius c' = radius c \<and> Circle.color c' = Circle.color c)
               | RectangleObj q \<Rightarrow> (\<exists>q'. lookup h' r = Some (RectangleObj q')
                     \<and> width q' = width q \<and> height q' = height q
                     \<and> Rectangle.color q' = Rectangle.color q))"
proof (cases obj)
  case (CircleObj c)
  define x where "x = CircleObj \<lparr>radius = radius c, color = Circle.color c\<rparr>"
  obtain r h' where n: "new x h = (r, h')" by (cases "new x h")
  have "clone this h = Inr (r, h')"
    using assms CircleObj n by (simp add: clone_def x_def)
  moreover have "r \<noteq> this \<and> lookup h' this = Some obj"
    using new_result(2) [OF n assms] .
  moreover have "lookup h' r = Some x" using new_result(1) [OF n] .
  ultimately show ?thesis using CircleObj by (simp add: x_def)
next
  case (RectangleObj q)
  define x where
    "x = RectangleObj \<lparr>width = width q, height = height q, color = Rectangle.color q\<rparr>"
  obtain r h' where n: "new x h = (r, h')" by (cases "new x h")
  have "clone this h = Inr (r, h')"
    using assms RectangleObj n by (simp add: clone_def x_def)
  moreover have "r \<noteq> this \<and> lookup h' this = Some obj"
    using new_result(2) [OF n assms] .
  moreover have "lookup h' r = Some x" using new_result(1) [OF n] .
  ultimately show ?thesis using RectangleObj by (simp add: x_def)
qed

text \<open>
  Witness for C5: cloning \<open>originalRectangle\<close> (address 1 of the demo heap).
\<close>

theorem clone_distinct_equal_fields_witness:
  "\<exists>r h'. clone 1 demo_heap = Inr (r, h') \<and> r \<noteq> 1
     \<and> lookup h' 1 = Some (RectangleObj \<lparr>width = 20, height = 30, color = ''Blue''\<rparr>)
     \<and> (\<exists>q'. lookup h' r = Some (RectangleObj q')
           \<and> width q' = 20 \<and> height q' = 30 \<and> Rectangle.color q' = ''Blue'')"
proof -
  have a: "lookup demo_heap 1 =
      Some (RectangleObj \<lparr>width = 20, height = 30, color = ''Blue''\<rparr>)"
    by (simp add: demo_heap_def lookup_def)
  show ?thesis using clone_distinct_equal_fields [OF a] by simp
qed

lemma clone_result:
  assumes "lookup h this = Some obj" and "clone this h = Inr (r, h1)"
  shows "r \<noteq> this" and "lookup h1 this = Some obj"
    and "lookup h1 r = Some (case obj of
           CircleObj c \<Rightarrow> CircleObj \<lparr>radius = radius c, color = Circle.color c\<rparr>
         | RectangleObj q \<Rightarrow> RectangleObj
             \<lparr>width = width q, height = height q, color = Rectangle.color q\<rparr>)"
  using assms
  by (auto simp: clone_def dest: new_result split: Prototype.splits)

lemma Circle_setRadius_frame:
  assumes "lookup h a = Some (CircleObj c)"
  shows "\<exists>h2. Circle_setRadius a v h = Inr h2
           \<and> lookup h2 a = Some (CircleObj (c\<lparr>radius := v\<rparr>))
           \<and> (\<forall>b. b \<noteq> a \<longrightarrow> lookup h2 b = lookup h b)"
  using assms by (simp add: Circle_setRadius_def asCircle_def lookup_update)

lemma Circle_setColor_frame:
  assumes "lookup h a = Some (CircleObj c)"
  shows "\<exists>h2. Circle_setColor a v h = Inr h2
           \<and> lookup h2 a = Some (CircleObj (c\<lparr>Circle.color := v\<rparr>))
           \<and> (\<forall>b. b \<noteq> a \<longrightarrow> lookup h2 b = lookup h b)"
  using assms by (simp add: Circle_setColor_def asCircle_def lookup_update)

lemma Rectangle_setWidth_frame:
  assumes "lookup h a = Some (RectangleObj q)"
  shows "\<exists>h2. Rectangle_setWidth a v h = Inr h2
           \<and> lookup h2 a = Some (RectangleObj (q\<lparr>width := v\<rparr>))
           \<and> (\<forall>b. b \<noteq> a \<longrightarrow> lookup h2 b = lookup h b)"
  using assms by (simp add: Rectangle_setWidth_def asRectangle_def lookup_update)

lemma Rectangle_setHeight_frame:
  assumes "lookup h a = Some (RectangleObj q)"
  shows "\<exists>h2. Rectangle_setHeight a v h = Inr h2
           \<and> lookup h2 a = Some (RectangleObj (q\<lparr>height := v\<rparr>))
           \<and> (\<forall>b. b \<noteq> a \<longrightarrow> lookup h2 b = lookup h b)"
  using assms by (simp add: Rectangle_setHeight_def asRectangle_def lookup_update)

lemma Rectangle_setColor_frame:
  assumes "lookup h a = Some (RectangleObj q)"
  shows "\<exists>h2. Rectangle_setColor a v h = Inr h2
           \<and> lookup h2 a = Some (RectangleObj (q\<lparr>Rectangle.color := v\<rparr>))
           \<and> (\<forall>b. b \<noteq> a \<longrightarrow> lookup h2 b = lookup h b)"
  using assms by (simp add: Rectangle_setColor_def asRectangle_def lookup_update)

text \<open>
  C10: clone independence. After \<open>clone()\<close> has returned, every setter called on
  the clone succeeds, changes that field of the clone and leaves the original as it
  was; every setter called on the original changes the original and leaves the
  clone as it was.
\<close>

theorem clone_independence:
  assumes "lookup h this = Some obj" and "clone this h = Inr (r, h1)"
  shows "case obj of
      CircleObj c \<Rightarrow>
        (\<exists>h2. Circle_setRadius r n h1 = Inr h2 \<and> lookup h2 this = Some obj
             \<and> lookup h2 r = Some (CircleObj \<lparr>radius = n, color = Circle.color c\<rparr>))
      \<and> (\<exists>h2. Circle_setColor r s h1 = Inr h2 \<and> lookup h2 this = Some obj
             \<and> lookup h2 r = Some (CircleObj \<lparr>radius = radius c, color = s\<rparr>))
      \<and> (\<exists>h2. Circle_setRadius this n h1 = Inr h2 \<and> lookup h2 r = lookup h1 r
             \<and> lookup h2 this = Some (CircleObj (c\<lparr>radius := n\<rparr>)))
      \<and> (\<exists>h2. Circle_setColor this s h1 = Inr h2 \<and> lookup h2 r = lookup h1 r
             \<and> lookup h2 this = Some (CircleObj (c\<lparr>Circle.color := s\<rparr>)))
    | RectangleObj q \<Rightarrow>
        (\<exists>h2. Rectangle_setWidth r n h1 = Inr h2 \<and> lookup h2 this = Some obj
             \<and> lookup h2 r = Some (RectangleObj
                  \<lparr>width = n, height = height q, color = Rectangle.color q\<rparr>))
      \<and> (\<exists>h2. Rectangle_setHeight r n h1 = Inr h2 \<and> lookup h2 this = Some obj
             \<and> lookup h2 r = Some (RectangleObj
                  \<lparr>width = width q, height = n, color = Rectangle.color q\<rparr>))
      \<and> (\<exists>h2. Rectangle_setColor r s h1 = Inr h2 \<and> lookup h2 this = Some obj
             \<and> lookup h2 r = Some (RectangleObj
                  \<lparr>width = width q, height = height q, color = s\<rparr>))
      \<and> (\<exists>h2. Rectangle_setWidth this n h1 = Inr h2 \<and> lookup h2 r = lookup h1 r
             \<and> lookup h2 this = Some (RectangleObj (q\<lparr>width := n\<rparr>)))
      \<and> (\<exists>h2. Rectangle_setHeight this n h1 = Inr h2 \<and> lookup h2 r = lookup h1 r
             \<and> lookup h2 this = Some (RectangleObj (q\<lparr>height := n\<rparr>)))
      \<and> (\<exists>h2. Rectangle_setColor this s h1 = Inr h2 \<and> lookup h2 r = lookup h1 r
             \<and> lookup h2 this = Some (RectangleObj (q\<lparr>Rectangle.color := s\<rparr>)))"
proof (cases obj)
  case (CircleObj c)
  note cr = clone_result [OF assms]
  have orig: "lookup h1 this = Some (CircleObj c)" using cr(2) CircleObj by simp
  have copy: "lookup h1 r = Some (CircleObj \<lparr>radius = radius c, color = Circle.color c\<rparr>)"
    using cr(3) CircleObj by simp
  have ne: "r \<noteq> this" "this \<noteq> r" using cr(1) by auto
  show ?thesis
    using Circle_setRadius_frame [OF copy, of n] Circle_setColor_frame [OF copy, of s]
      Circle_setRadius_frame [OF orig, of n] Circle_setColor_frame [OF orig, of s]
      ne orig CircleObj
    by (auto)
next
  case (RectangleObj q)
  note cr = clone_result [OF assms]
  have orig: "lookup h1 this = Some (RectangleObj q)" using cr(2) RectangleObj by simp
  have copy: "lookup h1 r = Some (RectangleObj
      \<lparr>width = width q, height = height q, color = Rectangle.color q\<rparr>)"
    using cr(3) RectangleObj by simp
  have ne: "r \<noteq> this" "this \<noteq> r" using cr(1) by auto
  show ?thesis
    using Rectangle_setWidth_frame [OF copy, of n] Rectangle_setHeight_frame [OF copy, of n]
      Rectangle_setColor_frame [OF copy, of s]
      Rectangle_setWidth_frame [OF orig, of n] Rectangle_setHeight_frame [OF orig, of n]
      Rectangle_setColor_frame [OF orig, of s]
      ne orig RectangleObj
    by (auto)
qed

text \<open>
  Witness for C10, after \<open>testRectangleClone\<close> and the demo: \<open>setColor("Green")\<close> on
  the clone of \<open>originalRectangle\<close> leaves the original blue, and \<open>setHeight(40)\<close> on
  the original leaves the clone's height at 30.
\<close>

theorem clone_independence_witness:
  "(\<exists>h2. Rectangle_setColor 2 ''Green''
            (demo_heap @ [RectangleObj \<lparr>width = 20, height = 30, color = ''Blue''\<rparr>]) = Inr h2
        \<and> lookup h2 1 = Some (RectangleObj \<lparr>width = 20, height = 30, color = ''Blue''\<rparr>)
        \<and> lookup h2 2 = Some (RectangleObj \<lparr>width = 20, height = 30, color = ''Green''\<rparr>))
   \<and> (\<exists>h2. Rectangle_setHeight 1 40
            (demo_heap @ [RectangleObj \<lparr>width = 20, height = 30, color = ''Blue''\<rparr>]) = Inr h2
        \<and> lookup h2 2 = Some (RectangleObj \<lparr>width = 20, height = 30, color = ''Blue''\<rparr>)
        \<and> lookup h2 1 = Some (RectangleObj \<lparr>width = 20, height = 40, color = ''Blue''\<rparr>))"
proof -
  let ?q = "\<lparr>width = 20, height = 30, color = ''Blue''\<rparr>"
  let ?h1 = "demo_heap @ [RectangleObj ?q]"
  have a: "lookup demo_heap 1 = Some (RectangleObj ?q)"
    by (simp add: demo_heap_def lookup_def)
  have b: "clone 1 demo_heap = Inr (2, ?h1)"
    by (simp add: demo_heap_def lookup_def clone_def new_def)
  have c: "lookup ?h1 2 = Some (RectangleObj ?q)"
    by (simp add: demo_heap_def lookup_def)
  show ?thesis
    using clone_independence [OF a b, of 40 "''Green''"] c by simp
qed


section \<open>Results: iterator\<close>





section \<open>Results: singleton\<close>

lemma getInstance_initialized:
  "Logger_instance s = Some r \<Longrightarrow> getInstance s = (Some r, s)"
  by (simp add: getInstance_def)

lemma getInstances_initialized:
  "Logger_instance s = Some r \<Longrightarrow> getInstances n s = (replicate n (Some r), s)"
  by (induction n) (simp_all add: getInstance_initialized)

lemma getInstance_first:
  assumes "Logger_instance s = None"
  shows "getInstance s = (Some (fst (Logger_new s)), (snd (Logger_new s))\<lparr>Logger_instance := Some (fst (Logger_new s))\<rparr>)"
  using assms by (simp add: getInstance_def Logger_new_def)

text \<open>
  C4: two singleton accesses return the same reference. Starting from the state
  in which \<open>instance\<close> is \<open>null\<close>, every one of any number of successive calls of
  \<open>Logger.getInstance()\<close> returns the same reference, the one to the object that the
  first call allocates; after the calls exactly one more \<open>Logger\<close> exists than
  before, and \<open>instance\<close> holds it.
\<close>

theorem singleton_same_reference:
  assumes "Logger_instance s = None"
  shows "fst (getInstances (Suc n) s) = replicate (Suc n) (Some (fst (Logger_new s)))
         \<and> allocated (snd (getInstances (Suc n) s)) = Suc (allocated s)
         \<and> Logger_instance (snd (getInstances (Suc n) s)) = Some (fst (Logger_new s))"
proof -
  let ?r = "fst (Logger_new s)"
  let ?s1 = "(snd (Logger_new s))\<lparr>Logger_instance := Some ?r\<rparr>"
  have "Logger_instance ?s1 = Some ?r" by simp
  from getInstances_initialized [OF this, of n]
  have "getInstances (Suc n) s = (Some ?r # replicate n (Some ?r), ?s1)"
    using getInstance_first [OF assms] by simp
  then show ?thesis by (simp add: Logger_new_def)
qed

text \<open>
  Witness for C4, after \<open>testSingletonInstance\<close>: two calls from the uninitialized
  class both return the object at address 0, the only one allocated.
\<close>

theorem singleton_same_reference_witness:
  "fst (getInstances 2 Logger_uninitialized) = [Some 0, Some 0]
   \<and> allocated (snd (getInstances 2 Logger_uninitialized)) = 1
   \<and> Logger_instance (snd (getInstances 2 Logger_uninitialized)) = Some 0"
proof -
  have a: "Logger_instance Logger_uninitialized = None"
    by (simp add: Logger_uninitialized_def)
  have b: "fst (Logger_new Logger_uninitialized) = 0"
    by (simp add: Logger_new_def Logger_uninitialized_def)
  have c: "allocated Logger_uninitialized = 0" by (simp add: Logger_uninitialized_def)
  show ?thesis
    using singleton_same_reference [OF a, of 1] b c by (simp add: numeral_2_eq_2)
qed


section \<open>Results: flyweight\<close>

text \<open>
  C1 claims that two calls of \<open>getCharacter\<close> with equal arguments return the same
  shared object. On a new factory, two calls of \<open>getCharacter('a', 12, "Arial")\<close>
  return the two different objects at addresses 0 and 1, which have equal fields,
  and the map then holds two entries for the one triple requested: the key passed
  to \<open>containsKey\<close> is always the object just constructed.
\<close>

theorem getCharacter_not_shared:
  "(case getCharacter 97 12 ''Arial'' FlyweightFactory_new of (first, w1) \<Rightarrow>
    case getCharacter 97 12 ''Arial'' w1 of (second, w2) \<Rightarrow>
      first = Some 0 \<and> second = Some 1 \<and> first \<noteq> second
      \<and> characters w2 ! 0 = characters w2 ! 1
      \<and> dom (flyweights w2) = {0, 1}
      \<and> card (dom (flyweights w2)) = 2)"
  by (auto simp: getCharacter_def Character_new_def FlyweightFactory_new_def containsKey_def)


section \<open>Results: builder\<close>

text \<open>
  C6: \<open>constructHouse()\<close> calls \<open>buildFoundation\<close>, \<open>buildStructure\<close>, \<open>buildRoof\<close>,
  \<open>buildInterior\<close> on its builder, each once and in this order, whatever the
  builder, and returns; after it, \<open>getHouse()\<close> of a new \<open>BrickHouseBuilder\<close> is a
  house with foundation "Concrete and Steel", structure "Brick and Mortar", roof
  "Concrete Slabs" and interior "Plastered Walls".
\<close>

theorem constructHouse_order_and_brick_house:
  "constructHouse (recording builder) (b, []) =
     (constructHouse builder b, [BuildFoundation, BuildStructure, BuildRoof, BuildInterior])
   \<and> constructHouse builder b =
       buildInterior builder (buildRoof builder (buildStructure builder (buildFoundation builder b)))
   \<and> getHouse BrickHouseBuilder (constructHouse BrickHouseBuilder BrickHouseBuilder_new) =
       \<lparr>foundation = Some ''Concrete and Steel'', structure = Some ''Brick and Mortar'',
        roof = Some ''Concrete Slabs'', interior = Some ''Plastered Walls''\<rparr>"
  by (simp add: constructHouse_def recording_def BrickHouseBuilder_def
      BrickHouseBuilder_new_def House_new_def
      setFoundation_def setStructure_def setRoof_def setInterior_def)


section \<open>Results: observer\<close>

lemma notifyLoop_map:
  "notifyLoop os stockName price trace = trace @ map (\<lambda>r. Update r stockName price) os"
  by (induction os arbitrary: trace) simp_all

lemma updates_on_map:
  "updates_on observer (map (\<lambda>r. Update r stockName price) os) =
     replicate (count_list os observer) (Update observer stockName price)"
  by (induction os) simp_all

text \<open>
  C7, as stated: \<open>notifyObservers\<close> calls \<open>update\<close> exactly once on each attached
  observer. An observer that was attached twice is in the list twice and is called
  twice.
\<close>

theorem notify_twice_when_attached_twice:
  "notifyObservers ''AAPL'' 0x4062C00000000000 (attach 0 (attach 0 StockMarket_new)) [] =
     [Update 0 ''AAPL'' 0x4062C00000000000, Update 0 ''AAPL'' 0x4062C00000000000]"
  by (simp add: notifyObservers_def attach_def StockMarket_new_def)

text \<open>
  C7, amended: \<open>notifyObservers(stockName, price)\<close> calls
  \<open>update(stockName, price)\<close> once for every entry of the observer list, in list
  order, in one pass that cannot fail. \<open>attach\<close> appends an entry and \<open>detach\<close>
  removes the observer's first entry, so an observer is called as many times as it
  is in the list (once when it was attached once, twice when it was attached twice
  and not detached), in the order of attachment. \<open>setPrice\<close> stores the price and
  notifies in this way.
\<close>

theorem notify_in_list_order:
  "notifyObservers stockName price s trace =
     trace @ map (\<lambda>observer. Update observer stockName price) (observers s)
   \<and> updates_on observer (notifyObservers stockName price s []) =
       replicate (count_list (observers s) observer) (Update observer stockName price)
   \<and> observers (attach observer s) = observers s @ [observer]
   \<and> observers (detach observer s) = remove1 observer (observers s)
   \<and> snd (setPrice stockName price m trace) = notifyObservers stockName price m trace
   \<and> stockPrices (fst (setPrice stockName price m trace)) stockName = Some price"
  by (simp add: notifyObservers_def notifyLoop_map updates_on_map attach_def detach_def
      setPrice_def)


section \<open>Results: chain of responsibility\<close>

lemma client_chain_eq:
  "client_chain =
     (0, [\<lparr>handler_class = AutomatedHandler, next_handler = Some 1\<rparr>,
          \<lparr>handler_class = AgentHandler, next_handler = Some 2\<rparr>,
          \<lparr>handler_class = SupervisorHandler, next_handler = None\<rparr>])"
  by (simp add: client_chain_def Handler_new_def setNext_def)

text \<open>
  C8: in the chain of \<open>Client.main\<close> every request returns and prints exactly one
  line. "basic" is resolved by the automated handler, which is the only one
  called; "intermediate" is passed on unchanged to the agent handler, which
  resolves it; "complex" is passed on unchanged twice and resolved by the
  supervisor handler; any other request is passed through all three handlers
  unchanged, and the supervisor handler, the last one, reports that it is unable to
  process the request.
\<close>

theorem chain_handles_by_first_match:
  "handleRequest (snd client_chain) (fst client_chain) request [] =
     Some (Inr
       (if request = ''basic'' then
          [Call 0 request, Print ''AutomatedHandler: Resolving basic request.'']
        else if request = ''intermediate'' then
          [Call 0 request, Call 1 request,
           Print ''AgentHandler: Resolving intermediate request.'']
        else if request = ''complex'' then
          [Call 0 request, Call 1 request, Call 2 request,
           Print ''SupervisorHandler: Resolving complex request.'']
        else
          [Call 0 request, Call 1 request, Call 2 request,
           Print ''SupervisorHandler: Unable to process the request.'']))"
proof -
  define hs where "hs = snd client_chain"
  have hs: "hs = [\<lparr>handler_class = AutomatedHandler, next_handler = Some 1\<rparr>,
          \<lparr>handler_class = AgentHandler, next_handler = Some 2\<rparr>,
          \<lparr>handler_class = SupervisorHandler, next_handler = None\<rparr>]"
    by (simp add: hs_def client_chain_eq)
  have s2: "handleRequest hs 2 req t =
      Some (Inr (t @ [Call 2 req] @
        [Print (if req = ''complex'' then ''SupervisorHandler: Resolving complex request.''
                else ''SupervisorHandler: Unable to process the request.'')]))" for t req
    by (subst handleRequest.simps) (simp add: hs)
  have s1: "handleRequest hs (Suc 0) req t =
      (if req = ''intermediate'' then
         Some (Inr (t @ [Call 1 req, Print ''AgentHandler: Resolving intermediate request.'']))
       else handleRequest hs 2 req (t @ [Call 1 req]))" for t req
    by (subst handleRequest.simps) (simp add: hs)
  have s0: "handleRequest hs 0 req t =
      (if req = ''basic'' then
         Some (Inr (t @ [Call 0 req, Print ''AutomatedHandler: Resolving basic request.'']))
       else handleRequest hs (Suc 0) req (t @ [Call 0 req]))" for t req
    by (subst handleRequest.simps) (simp add: hs)
  have "fst client_chain = 0" by (simp add: client_chain_eq)
  then show ?thesis
    unfolding hs_def [symmetric] by (simp add: s0 s1 s2)
qed

end
